theory Spec2Isabelle
  imports Complex_Main "HOL-Library.Finite_Map" "HOL-Library.Sublist" "HOL-Library.Multiset"
begin

section \<open>Python values, exceptions and the built-ins the analyzer calls\<close>

text \<open>
  The analyzer (\<^verbatim>\<open>ppfl_python_worker/analysis/analyzer.py\<close>) is dynamically typed: a
  statistics record is a \<^verbatim>\<open>dict\<close> decoded from JSON, a field identifier is a \<^verbatim>\<open>str\<close> or
  \<^verbatim>\<open>None\<close>, and the gate wraps its string handling in \<^verbatim>\<open>try/except Exception\<close>.
  The values are therefore modelled as JSON-like Python values. Numbers are reals
  (Python's \<^verbatim>\<open>bool\<close>, \<^verbatim>\<open>int\<close> and \<^verbatim>\<open>float\<close> compare equal when they denote the same number and
  are all rejected alike by \<^verbatim>\<open>.split\<close> and \<^verbatim>\<open>.get\<close>, so one constructor suffices; NaN and
  the float infinities are not values of the model). Strings are \<^typ>\<open>string\<close>, that is byte
  strings: identifiers are taken to be ASCII. A \<^verbatim>\<open>dict\<close> with string keys is a finite map,
  so that HOL equality on values is Python's \<^verbatim>\<open>==\<close>.
\<close>

datatype pyval =
    PNone
  | PNum real
  | PStr string
  | PList "pyval list"
  | PDict "(string, pyval) fmap"

datatype py_exn = AttributeError | IndexError | EngineError

text \<open>Sequencing of statements that may raise: the first exception ends the computation.\<close>

fun bind_exn :: "py_exn + 'a \<Rightarrow> ('a \<Rightarrow> py_exn + 'b) \<Rightarrow> py_exn + 'b" where
  "bind_exn (Inl e) f = Inl e"
| "bind_exn (Inr x) f = f x"

text \<open>Truth value testing, as \<^verbatim>\<open>not x\<close> uses it.\<close>

fun truthy :: "pyval \<Rightarrow> bool" where
  "truthy PNone = False"
| "truthy (PNum x) = (x \<noteq> 0)"
| "truthy (PStr s) = (s \<noteq> [])"
| "truthy (PList xs) = (xs \<noteq> [])"
| "truthy (PDict m) = (m \<noteq> fmempty)"

text \<open>\<^verbatim>\<open>d.get(key, default)\<close>: only a dict has the method.\<close>

fun py_get :: "pyval \<Rightarrow> string \<Rightarrow> pyval \<Rightarrow> py_exn + pyval" where
  "py_get (PDict m) k d = Inr (case fmlookup m k of None \<Rightarrow> d | Some v \<Rightarrow> v)"
| "py_get _ k d = Inl AttributeError"

text \<open>\<^verbatim>\<open>s.split(sep)\<close> for a one-character separator: the pieces between the separators,
  empty pieces kept, so the result of splitting a string is never the empty list.\<close>

fun split_on :: "char \<Rightarrow> string \<Rightarrow> string list" where
  "split_on sep [] = [[]]"
| "split_on sep (c # cs) =
     (if c = sep then [] # split_on sep cs
      else (case split_on sep cs of
              [] \<Rightarrow> [[c]]
            | w # ws \<Rightarrow> (c # w) # ws))"

fun py_split :: "pyval \<Rightarrow> char \<Rightarrow> py_exn + string list" where
  "py_split (PStr s) sep = Inr (split_on sep s)"
| "py_split _ sep = Inl AttributeError"

text \<open>\<^verbatim>\<open>xs[-1]\<close> raises IndexError on the empty list.\<close>

fun py_last :: "'a list \<Rightarrow> py_exn + 'a" where
  "py_last [] = Inl IndexError"
| "py_last [x] = Inr x"
| "py_last (x # y # ys) = py_last (y # ys)"

text \<open>\<^verbatim>\<open>s.lower()\<close> on ASCII: the 26 capital letters are mapped, every other byte is kept.\<close>

definition lower_char :: "char \<Rightarrow> char" where
  "lower_char c =
     (case map_of (zip ''ABCDEFGHIJKLMNOPQRSTUVWXYZ'' ''abcdefghijklmnopqrstuvwxyz'') c of
        None \<Rightarrow> c
      | Some d \<Rightarrow> d)"

definition py_lower :: "string \<Rightarrow> string" where
  "py_lower s = map lower_char s"

text \<open>\<^verbatim>\<open>a in b\<close> on two strings is the contiguous-substring test, \<^const>\<open>sublist\<close>.\<close>

definition py_in :: "string \<Rightarrow> string \<Rightarrow> bool" where
  "py_in a b = sublist a b"


section \<open>VectorExtractor: \<^verbatim>\<open>extract_percentiles\<close>, \<^verbatim>\<open>extract_statistics\<close>\<close>

definition extract_percentiles :: "pyval \<Rightarrow> py_exn + pyval list" where
  "extract_percentiles stats =
     (bind_exn (py_get stats ''p25'' (PNum 0)) (\<lambda>p25.
      bind_exn (py_get stats ''p50'' (PNum 0)) (\<lambda>p50.
      bind_exn (py_get stats ''p75'' (PNum 0)) (\<lambda>p75.
      Inr [p25, p50, p75]))))"

definition extract_statistics :: "pyval \<Rightarrow> py_exn + pyval list" where
  "extract_statistics stats =
     (bind_exn (py_get stats ''min'' (PNum 0)) (\<lambda>min_val.
      bind_exn (py_get stats ''max'' (PNum 0)) (\<lambda>max_val.
      bind_exn (py_get stats ''mean'' (PNum 0)) (\<lambda>mean.
      bind_exn (py_get stats ''median'' (PNum 0)) (\<lambda>median.
      bind_exn (py_get stats ''stdDev'' (PNum 0)) (\<lambda>std_dev.
      bind_exn (py_get stats ''uniqueCount'' (PNum 0)) (\<lambda>unique_count.
      bind_exn (py_get stats ''nullCount'' (PNum 0)) (\<lambda>null_count.
      bind_exn (py_get stats ''percentiles'' (PDict fmempty)) (\<lambda>percentiles.
      bind_exn (py_get percentiles ''p25'' (PNum 0)) (\<lambda>p25.
      bind_exn (py_get percentiles ''p50'' (PNum 0)) (\<lambda>p50.
      bind_exn (py_get percentiles ''p75'' (PNum 0)) (\<lambda>p75.
      Inr [min_val, max_val, mean, median, std_dev, unique_count, null_count, p25, p50, p75]))))))))))))"


section \<open>FieldIdentityGate: \<^verbatim>\<open>should_compare_fields\<close>\<close>

text \<open>\<^verbatim>\<open>field_id.split("/")[-1].lower()\<close>, each step able to raise.\<close>

definition field_name :: "pyval \<Rightarrow> py_exn + string" where
  "field_name field_id =
     (bind_exn (py_split field_id CHR ''/'') (\<lambda>segments.
      bind_exn (py_last segments) (\<lambda>seg.
      Inr (py_lower seg))))"

text \<open>
  The body of the \<^verbatim>\<open>try\<close> block (lines 107 to 124). \<open>Inr True\<close> is one of the two
  \<^verbatim>\<open>return True\<close> statements inside the block, \<open>Inr False\<close> is leaving the block at its
  end, and \<open>Inl e\<close> is an exception raised inside it.
\<close>

definition try_field_names :: "pyval \<Rightarrow> pyval \<Rightarrow> py_exn + bool" where
  "try_field_names candidate_field_id root_field_id =
     (bind_exn (field_name candidate_field_id) (\<lambda>candidate_field_name.
      bind_exn (field_name root_field_id) (\<lambda>root_field_name.
      if candidate_field_name = root_field_name then Inr True
      else if py_in candidate_field_name root_field_name
              \<or> py_in root_field_name candidate_field_name then Inr True
      else Inr False)))"

text \<open>
  The whole gate. The result type keeps a place for an escaping exception, so that
  "no exception escapes" is a statement about the function and not about its type. The
  \<^verbatim>\<open>except Exception\<close> handler only logs; control then reaches the final
  \<^verbatim>\<open>return False\<close>. The logger calls do not affect the returned value and are left out.
\<close>

definition should_compare_fields :: "pyval \<Rightarrow> pyval \<Rightarrow> py_exn + bool" where
  "should_compare_fields candidate_field_id root_field_id =
     (if \<not> truthy candidate_field_id \<or> \<not> truthy root_field_id then Inr False
      else if candidate_field_id = root_field_id then Inr True
      else (case try_field_names candidate_field_id root_field_id of
              Inl e \<Rightarrow> Inr False
            | Inr similar \<Rightarrow> if similar then Inr True else Inr False))"


section \<open>DistanceEngine: \<^verbatim>\<open>wasserstein_distance\<close>\<close>

text \<open>
  The engine is \<^verbatim>\<open>scipy.stats.wasserstein_distance\<close>, imported at line 3 of the analyzer;
  its code is not among the sources. It is modelled from section 4.3 of the
  specification: sort both vectors, read each as a piecewise-constant empirical CDF,
  merge the two sorted vectors, walk the combined breakpoints and accumulate
  \<open>\<bar>stepWidth * (fractionA - fractionB)\<bar>\<close> between consecutive breakpoints.
\<close>

text \<open>Modelled from the spec: "merging the two sorted vectors" (the engine's code is
  missing from the sources).\<close>

fun merge_sorted :: "real list \<Rightarrow> real list \<Rightarrow> real list" where
  "merge_sorted [] vs = vs"
| "merge_sorted (u # us) [] = u # us"
| "merge_sorted (u # us) (v # vs) =
     (if v < u then v # merge_sorted (u # us) vs else u # merge_sorted us (v # vs))"

text \<open>Modelled from the spec: the "piecewise-constant empirical CDF" of a sample with
  "equal weight per element", the fraction of the sample that is at most \<open>t\<close> (the
  engine's code is missing from the sources). For the empty sample the quotient is
  HOL's \<open>0 / 0 = 0\<close>; the analyzer only passes vectors of length 3 or 10.\<close>

definition empirical_cdf :: "real list \<Rightarrow> real \<Rightarrow> real" where
  "empirical_cdf sample t = real (length (filter (\<lambda>x. x \<le> t) sample)) / real (length sample)"

text \<open>Modelled from the spec: "walking the combined breakpoints, and accumulating
  \<open>\<bar>stepWidth * (fractionA - fractionB)\<bar>\<close> between consecutive breakpoints" (the engine's
  code is missing from the sources).\<close>

fun accumulate :: "real list \<Rightarrow> real list \<Rightarrow> real list \<Rightarrow> real" where
  "accumulate vectorA vectorB (t # t' # ts) =
     \<bar>(t' - t) * (empirical_cdf vectorA t - empirical_cdf vectorB t)\<bar>
       + accumulate vectorA vectorB (t' # ts)"
| "accumulate vectorA vectorB [t] = 0"
| "accumulate vectorA vectorB [] = 0"

text \<open>Modelled from the spec: \<^verbatim>\<open>distance(vectorA, vectorB)\<close> of section 4.3 (the engine's
  code is missing from the sources).\<close>

definition distance :: "real list \<Rightarrow> real list \<Rightarrow> real" where
  "distance vectorA vectorB =
     (let sortedA = sort vectorA; sortedB = sort vectorB
      in accumulate sortedA sortedB (merge_sorted sortedA sortedB))"

text \<open>
  The analyzer hands the engine lists of whatever the records held. The engine is a
  "pure numeric computation": an entry that is not a number is outside its domain. What
  the library does with such an entry (it rejects some and converts others) is not
  described; the model reports every one of them as the exception \<open>EngineError\<close> of the
  call. No property below depends on which exception it is.
\<close>

fun as_number :: "pyval \<Rightarrow> py_exn + real" where
  "as_number (PNum x) = Inr x"
| "as_number _ = Inl EngineError"

fun as_vector :: "pyval list \<Rightarrow> py_exn + real list" where
  "as_vector [] = Inr []"
| "as_vector (x # xs) =
     bind_exn (as_number x) (\<lambda>y. bind_exn (as_vector xs) (\<lambda>ys. Inr (y # ys)))"

text \<open>Modelled from the spec: the call \<^verbatim>\<open>wasserstein_distance(u_values, v_values)\<close> as the
  analyzer makes it, on two Python lists (the engine's code is missing from the
  sources).\<close>

definition wasserstein_distance :: "pyval list \<Rightarrow> pyval list \<Rightarrow> py_exn + real" where
  "wasserstein_distance u_values v_values =
     bind_exn (as_vector u_values) (\<lambda>vectorA.
     bind_exn (as_vector v_values) (\<lambda>vectorB.
     Inr (distance vectorA vectorB)))"


section \<open>ComparisonOrchestrator: \<^verbatim>\<open>compare_percentiles\<close>, \<^verbatim>\<open>compare_statistics\<close>\<close>

text \<open>A returned float: a finite distance, or \<^verbatim>\<open>float("inf")\<close>.\<close>

datatype comparison_result = Finite real | Infinity

definition compare_percentiles :: "pyval \<Rightarrow> pyval \<Rightarrow> py_exn + comparison_result" where
  "compare_percentiles candidate_stats root_stats =
     bind_exn (extract_percentiles candidate_stats) (\<lambda>candidate_values.
     bind_exn (extract_percentiles root_stats) (\<lambda>root_values.
     bind_exn (wasserstein_distance candidate_values root_values) (\<lambda>d.
     Inr (Finite d))))"

text \<open>
  An omitted identifier is the default \<^verbatim>\<open>None\<close>. The first statement (lines 146 to 151)
  either returns \<^verbatim>\<open>float("inf")\<close> or falls through to the extraction; \<open>skip\<close> says which.
\<close>

definition compare_statistics ::
  "pyval \<Rightarrow> pyval \<Rightarrow> pyval \<Rightarrow> pyval \<Rightarrow> py_exn + comparison_result" where
  "compare_statistics candidate_stats root_stats candidate_field_id root_field_id =
     bind_exn
       (if candidate_field_id \<noteq> PNone \<and> root_field_id \<noteq> PNone
        then bind_exn (should_compare_fields candidate_field_id root_field_id)
               (\<lambda>similar. Inr (\<not> similar))
        else Inr False)
       (\<lambda>skip.
          if skip then Inr Infinity
          else
            bind_exn (extract_statistics candidate_stats) (\<lambda>candidate_values.
            bind_exn (extract_statistics root_stats) (\<lambda>root_values.
            bind_exn (wasserstein_distance candidate_values root_values) (\<lambda>d.
            Inr (Finite d)))))"


section \<open>The data model of section 3, and the specification's direct computation\<close>

text \<open>
  A statistics record maps metric names to numeric values and may carry a nested
  \<^verbatim>\<open>percentiles\<close> mapping with numeric \<^verbatim>\<open>p25\<close>, \<^verbatim>\<open>p50\<close>, \<^verbatim>\<open>p75\<close>; any key may be absent. Only
  the recognized keys are constrained.
\<close>

fun is_number :: "pyval \<Rightarrow> bool" where
  "is_number (PNum x) = True"
| "is_number _ = False"

fun is_dict :: "pyval \<Rightarrow> bool" where
  "is_dict (PDict m) = True"
| "is_dict _ = False"

fun top_level :: "pyval \<Rightarrow> string \<Rightarrow> pyval option" where
  "top_level (PDict m) k = fmlookup m k"
| "top_level _ k = None"

definition nested_percentile :: "pyval \<Rightarrow> string \<Rightarrow> pyval option" where
  "nested_percentile stats k =
     (case top_level stats ''percentiles'' of None \<Rightarrow> None | Some sub \<Rightarrow> top_level sub k)"

fun or_zero :: "pyval option \<Rightarrow> pyval" where
  "or_zero None = PNum 0"
| "or_zero (Some v) = v"

fun numeric_if_present :: "pyval option \<Rightarrow> bool" where
  "numeric_if_present None = True"
| "numeric_if_present (Some v) = is_number v"

definition scalar_keys :: "string list" where
  "scalar_keys = [''min'', ''max'', ''mean'', ''median'', ''stdDev'', ''uniqueCount'', ''nullCount'']"

definition percentile_keys :: "string list" where
  "percentile_keys = [''p25'', ''p50'', ''p75'']"

definition is_statistics_record :: "pyval \<Rightarrow> bool" where
  "is_statistics_record stats =
     (is_dict stats
      \<and> list_all (\<lambda>k. numeric_if_present (top_level stats k)) (scalar_keys @ percentile_keys)
      \<and> (case top_level stats ''percentiles'' of
           None \<Rightarrow> True
         | Some sub \<Rightarrow>
             is_dict sub \<and> list_all (\<lambda>k. numeric_if_present (top_level sub k)) percentile_keys))"

text \<open>
  The computation the specification compares \<^verbatim>\<open>compareStatistics\<close> with in its "gating
  bypass" property, written from its words: extract the two full vectors, apply the
  distance engine to them.
\<close>

definition direct_full_distance :: "pyval \<Rightarrow> pyval \<Rightarrow> py_exn + comparison_result" where
  "direct_full_distance stats1 stats2 =
     (case extract_statistics stats1 of
        Inl e \<Rightarrow> Inl e
      | Inr full1 \<Rightarrow>
          (case extract_statistics stats2 of
             Inl e \<Rightarrow> Inl e
           | Inr full2 \<Rightarrow>
               (case wasserstein_distance full1 full2 of
                  Inl e \<Rightarrow> Inl e
                | Inr d \<Rightarrow> Inr (Finite d))))"


section \<open>Facts about the built-ins and the extractor\<close>

lemmas gate_defs = should_compare_fields_def try_field_names_def field_name_def
  py_lower_def lower_char_def py_in_def

lemma split_on_nonempty: "split_on sep s \<noteq> []"
  by (induction s) (simp_all split: list.splits)

lemma py_last_nonempty: "xs \<noteq> [] \<Longrightarrow> py_last xs = Inr (last xs)"
  by (induction xs rule: py_last.induct) simp_all

text \<open>On a string the three steps of \<^const>\<open>field_name\<close> never raise: the leaf name is the
  lower-cased text after the last \<^verbatim>\<open>/\<close>.\<close>

lemma field_name_PStr: "field_name (PStr s) = Inr (py_lower (last (split_on CHR ''/'' s)))"
  by (simp add: field_name_def py_last_nonempty split_on_nonempty)

lemma field_name_not_string: "field_name PNone = Inl AttributeError"
  and "field_name (PNum x) = Inl AttributeError"
  and "field_name (PList xs) = Inl AttributeError"
  and "field_name (PDict m) = Inl AttributeError"
  by (simp_all add: field_name_def)

lemma py_get_top_level:
  "is_dict stats \<Longrightarrow>
     py_get stats k d = Inr (case top_level stats k of None \<Rightarrow> d | Some v \<Rightarrow> v)"
  by (cases stats) simp_all

lemma py_get_or_zero:
  "is_dict stats \<Longrightarrow> py_get stats k (PNum 0) = Inr (or_zero (top_level stats k))"
  by (cases stats; cases "top_level stats k") simp_all

lemma or_zero_case: "(case x of None \<Rightarrow> PNum 0 | Some v \<Rightarrow> v) = or_zero x"
  by (cases x) simp_all

lemma is_number_or_zero: "numeric_if_present x \<Longrightarrow> is_number (or_zero x)"
  by (cases x) simp_all

lemma extract_percentiles_dict:
  "is_dict stats \<Longrightarrow>
     extract_percentiles stats = Inr (map (\<lambda>k. or_zero (top_level stats k)) percentile_keys)"
  by (simp add: extract_percentiles_def percentile_keys_def py_get_or_zero)

lemma nested_get_or_zero:
  assumes "is_dict stats"
    and "case top_level stats ''percentiles'' of None \<Rightarrow> True | Some sub \<Rightarrow> is_dict sub"
  shows "bind_exn (py_get stats ''percentiles'' (PDict fmempty)) (\<lambda>percentiles.
           bind_exn (py_get percentiles ''p25'' (PNum 0)) (\<lambda>p25.
           bind_exn (py_get percentiles ''p50'' (PNum 0)) (\<lambda>p50.
           bind_exn (py_get percentiles ''p75'' (PNum 0)) (\<lambda>p75. f p25 p50 p75))))
         = f (or_zero (nested_percentile stats ''p25''))
             (or_zero (nested_percentile stats ''p50''))
             (or_zero (nested_percentile stats ''p75''))"
proof (cases "top_level stats ''percentiles''")
  case None
  with assms(1) show ?thesis
    by (simp add: py_get_top_level nested_percentile_def)
next
  case (Some sub)
  with assms have "is_dict sub" by simp
  with Some assms(1) show ?thesis
    by (simp add: py_get_top_level or_zero_case nested_percentile_def)
qed

lemma extract_statistics_dict:
  assumes "is_dict stats"
    and "case top_level stats ''percentiles'' of None \<Rightarrow> True | Some sub \<Rightarrow> is_dict sub"
  shows "extract_statistics stats =
           Inr (map (\<lambda>k. or_zero (top_level stats k)) scalar_keys
                @ map (\<lambda>k. or_zero (nested_percentile stats k)) percentile_keys)"
  unfolding extract_statistics_def
  by (simp add: py_get_or_zero [OF assms(1)] nested_get_or_zero [OF assms]
      scalar_keys_def percentile_keys_def)

lemma nested_numeric:
  assumes "case top_level stats ''percentiles'' of None \<Rightarrow> True
           | Some sub \<Rightarrow> is_dict sub
               \<and> list_all (\<lambda>k. numeric_if_present (top_level sub k)) percentile_keys"
  shows "list_all (\<lambda>k. numeric_if_present (nested_percentile stats k)) percentile_keys"
  using assms
  by (cases "top_level stats ''percentiles''")
     (simp_all add: nested_percentile_def percentile_keys_def)

text \<open>
  Outside the data model the extractor is not total: a record whose \<^verbatim>\<open>percentiles\<close> entry
  is present but is not a mapping (JSON \<^verbatim>\<open>null\<close>, say) makes \<^verbatim>\<open>percentiles.get\<close> raise, and
  an entry that is present with a non-numeric value is handed on as it is.
\<close>

lemma extract_statistics_percentiles_not_a_mapping:
  "extract_statistics (PDict (fmupd ''percentiles'' PNone fmempty)) = Inl AttributeError"
  by (simp add: extract_statistics_def)

lemma extract_percentiles_null_entry:
  "extract_percentiles (PDict (fmupd ''p25'' PNone fmempty)) = Inr [PNone, PNum 0, PNum 0]"
  by (simp add: extract_percentiles_def)


section \<open>Facts about the gate\<close>

lemma try_field_names_commute:
  "(case try_field_names a b of Inl e \<Rightarrow> False | Inr t \<Rightarrow> t)
     = (case try_field_names b a of Inl e \<Rightarrow> False | Inr t \<Rightarrow> t)"
  by (cases "field_name a"; cases "field_name b") (auto simp: try_field_names_def)

lemma should_compare_fields_alt:
  "should_compare_fields a b =
     Inr (truthy a \<and> truthy b
          \<and> (a = b \<or> (case try_field_names a b of Inl e \<Rightarrow> False | Inr t \<Rightarrow> t)))"
  by (auto simp: should_compare_fields_def split: sum.splits)

text \<open>The specification's scenario 3 and its reflexivity and emptiness properties.\<close>

lemma gate_name_in_surname:
  "should_compare_fields (PStr ''x/name'') (PStr ''y/surname'') = Inr True"
  by (simp add: gate_defs sublist_Cons_right)

lemma gate_reflexive: "s \<noteq> [] \<Longrightarrow> should_compare_fields (PStr s) (PStr s) = Inr True"
  by (simp add: should_compare_fields_def)

lemma gate_rejects_emptiness:
  "should_compare_fields (PStr []) x = Inr False"
  "should_compare_fields x PNone = Inr False"
  by (simp_all add: should_compare_fields_def)


section \<open>Facts about the distance engine\<close>

lemma mset_merge_sorted: "mset (merge_sorted us vs) = mset us + mset vs"
  by (induction us vs rule: merge_sorted.induct) simp_all

lemma set_merge_sorted: "set (merge_sorted us vs) = set us \<union> set vs"
proof -
  have "set_mset (mset (merge_sorted us vs)) = set_mset (mset us + mset vs)"
    by (simp only: mset_merge_sorted)
  then show ?thesis by simp
qed

lemma sorted_merge_sorted:
  "sorted us \<Longrightarrow> sorted vs \<Longrightarrow> sorted (merge_sorted us vs)"
  by (induction us vs rule: merge_sorted.induct) (auto simp: set_merge_sorted)

lemma sorted_mset_unique:
  fixes xs ys :: "real list"
  assumes "sorted xs" and "sorted ys" and "mset xs = mset ys"
  shows "xs = ys"
proof -
  have "sort ys = xs"
    using assms by (intro properties_for_sort) simp_all
  moreover have "sort ys = ys"
    using assms(2) by (simp add: sort_key_id_if_sorted)
  ultimately show ?thesis by simp
qed

text \<open>The combined breakpoints do not depend on which vector is named first.\<close>

lemma merge_sorted_commute:
  assumes "sorted us" and "sorted vs"
  shows "merge_sorted us vs = merge_sorted vs us"
  using assms
  by (intro sorted_mset_unique sorted_merge_sorted) (simp_all add: mset_merge_sorted)

lemma accumulate_swap: "accumulate a b ts = accumulate b a ts"
  by (induction a b ts rule: accumulate.induct) (simp_all add: abs_mult abs_minus_commute)

lemma accumulate_same: "accumulate a a ts = 0"
  by (induction a a ts rule: accumulate.induct) simp_all

text \<open>The model agrees with the documented example of the library routine.\<close>

lemma distance_example: "distance [0, 1, 3] [5, 6, 8] = 5"
  by (simp add: distance_def empirical_cdf_def)


section \<open>The claims\<close>

subsection \<open>C1: a rejected pair yields the sentinel\<close>

text \<open>
  C1. Whenever both field identifiers are supplied (neither is \<^verbatim>\<open>None\<close>) and the gate
  returns false for them, \<^verbatim>\<open>compare_statistics\<close> returns \<^verbatim>\<open>float("inf")\<close>, whatever the two
  statistics arguments are. The arguments are arbitrary values, among them ones on which
  the extraction or the engine raises: the result is the sentinel all the same, so
  neither was run.
\<close>

theorem rejected_pair_returns_sentinel:
  assumes "candidate_field_id \<noteq> PNone" and "root_field_id \<noteq> PNone"
    and "should_compare_fields candidate_field_id root_field_id = Inr False"
  shows "compare_statistics candidate_stats root_stats candidate_field_id root_field_id
           = Inr Infinity"
  using assms by (simp add: compare_statistics_def)

text \<open>The specification's pair \<^verbatim>\<open>a/foo\<close>, \<^verbatim>\<open>b/bar\<close>, on a first argument that the extractor
  rejects and a second one that the engine rejects.\<close>

theorem rejected_pair_returns_sentinel_witness:
  "extract_statistics PNone = Inl AttributeError
   \<and> wasserstein_distance [PStr ''x''] [PStr ''y''] = Inl EngineError
   \<and> compare_statistics PNone (PDict (fmupd ''min'' (PStr ''x'') fmempty))
        (PStr ''a/foo'') (PStr ''b/bar'') = Inr Infinity"
proof -
  have gate: "should_compare_fields (PStr ''a/foo'') (PStr ''b/bar'') = Inr False"
    by (simp add: gate_defs sublist_Cons_right)
  have "compare_statistics PNone (PDict (fmupd ''min'' (PStr ''x'') fmempty))
        (PStr ''a/foo'') (PStr ''b/bar'') = Inr Infinity"
    by (rule rejected_pair_returns_sentinel [OF _ _ gate]) simp_all
  then show ?thesis
    by (simp add: extract_statistics_def wasserstein_distance_def)
qed


subsection \<open>C2: \<^verbatim>\<open>data/user_id\<close> against \<^verbatim>\<open>meta/UserId\<close>\<close>

text \<open>
  C2, as amended. The gate rejects the pair \<^verbatim>\<open>data/user_id\<close>, \<^verbatim>\<open>meta/UserId\<close>: the lower-cased
  leaf names are \<^verbatim>\<open>user_id\<close> and \<^verbatim>\<open>userid\<close>, which are not equal, and neither is a substring
  of the other, because the rule is the literal one and the underscore is kept.
\<close>

theorem user_id_pair_rejected:
  "field_name (PStr ''data/user_id'') = Inr ''user_id''
   \<and> field_name (PStr ''meta/UserId'') = Inr ''userid''
   \<and> \<not> py_in ''user_id'' ''userid'' \<and> \<not> py_in ''userid'' ''user_id''
   \<and> should_compare_fields (PStr ''data/user_id'') (PStr ''meta/UserId'') = Inr False"
  by (simp add: gate_defs sublist_Cons_right)

theorem user_id_pair_rejected_witness:
  "should_compare_fields (PStr ''data/user_id'') (PStr ''meta/UserId'') = Inr False"
  using user_id_pair_rejected by (elim conjE)

text \<open>The claim as it was stated, that the gate returns true on this pair, fails.\<close>

theorem user_id_pair_counterexample:
  "should_compare_fields (PStr ''data/user_id'') (PStr ''meta/UserId'') \<noteq> Inr True"
  by (simp add: gate_defs sublist_Cons_right)


subsection \<open>C3: an empty leaf name\<close>

text \<open>
  C3, as amended. The containment rule has no emptiness guard: for two non-empty
  identifiers that are not equal, if at least one of the two leaf names is the empty
  string, the gate returns true, the empty string being a substring of every string.
\<close>

theorem empty_leaf_accepted:
  assumes "candidate_id \<noteq> []" and "root_id \<noteq> []" and "candidate_id \<noteq> root_id"
    and "field_name (PStr candidate_id) = Inr candidate_leaf"
    and "field_name (PStr root_id) = Inr root_leaf"
    and "candidate_leaf = [] \<or> root_leaf = []"
  shows "should_compare_fields (PStr candidate_id) (PStr root_id) = Inr True"
  using assms by (auto simp: should_compare_fields_def try_field_names_def py_in_def)

theorem empty_leaf_accepted_witness:
  "should_compare_fields (PStr ''a/'') (PStr ''b/c'') = Inr True"
  by (rule empty_leaf_accepted [of "''a/''" "''b/c''" "[]" "''c''"])
     (simp_all add: field_name_def py_lower_def lower_char_def)

text \<open>The claim as it was stated fails on its own example: the identifiers \<^verbatim>\<open>a/\<close> and
  \<^verbatim>\<open>b/c\<close> are non-empty and different, their leaf names are the empty string and \<^verbatim>\<open>c\<close>,
  and the gate does not return false.\<close>

theorem empty_leaf_counterexample:
  "PStr ''a/'' \<noteq> PStr ''b/c''
   \<and> field_name (PStr ''a/'') = Inr []
   \<and> field_name (PStr ''b/c'') = Inr ''c''
   \<and> should_compare_fields (PStr ''a/'') (PStr ''b/c'') \<noteq> Inr False"
  by (simp add: gate_defs)


subsection \<open>C4: extraction is total and defaulting\<close>

text \<open>
  C4. On every statistics record of the data model, whichever recognized keys it lacks,
  \<^verbatim>\<open>extract_statistics\<close> returns the ten values min, max, mean, median, stdDev, uniqueCount,
  nullCount (read at the top level) and p25, p50, p75 (read inside \<^verbatim>\<open>percentiles\<close>), and
  \<^verbatim>\<open>extract_percentiles\<close> returns the three values p25, p50, p75 read at the top level, in
  this order; every value is a number, and a missing metric contributes \<open>0\<close>
  (\<^const>\<open>or_zero\<close> of an absent entry).
\<close>

theorem extraction_total_and_defaulting:
  assumes "is_statistics_record stats"
  shows "extract_statistics stats =
           Inr (map (\<lambda>k. or_zero (top_level stats k)) scalar_keys
                @ map (\<lambda>k. or_zero (nested_percentile stats k)) percentile_keys)
         \<and> extract_percentiles stats
             = Inr (map (\<lambda>k. or_zero (top_level stats k)) percentile_keys)
         \<and> (\<exists>full. extract_statistics stats = Inr full \<and> length full = 10
               \<and> list_all is_number full)
         \<and> (\<exists>pcts. extract_percentiles stats = Inr pcts \<and> length pcts = 3
               \<and> list_all is_number pcts)"
proof -
  from assms have dict: "is_dict stats"
    and top: "list_all (\<lambda>k. numeric_if_present (top_level stats k))
                (scalar_keys @ percentile_keys)"
    and sub: "case top_level stats ''percentiles'' of None \<Rightarrow> True
              | Some sub \<Rightarrow> is_dict sub
                  \<and> list_all (\<lambda>k. numeric_if_present (top_level sub k)) percentile_keys"
    by (simp_all add: is_statistics_record_def)
  from sub have sub_dict:
    "case top_level stats ''percentiles'' of None \<Rightarrow> True | Some sub \<Rightarrow> is_dict sub"
    by (simp split: option.splits)
  have full: "extract_statistics stats =
           Inr (map (\<lambda>k. or_zero (top_level stats k)) scalar_keys
                @ map (\<lambda>k. or_zero (nested_percentile stats k)) percentile_keys)"
    by (rule extract_statistics_dict [OF dict sub_dict])
  have pcts: "extract_percentiles stats
                = Inr (map (\<lambda>k. or_zero (top_level stats k)) percentile_keys)"
    by (rule extract_percentiles_dict [OF dict])
  have num_top: "list_all is_number
                   (map (\<lambda>k. or_zero (top_level stats k)) (scalar_keys @ percentile_keys))"
    using top by (auto simp: list_all_iff intro: is_number_or_zero)
  have num_nested: "list_all is_number
                      (map (\<lambda>k. or_zero (nested_percentile stats k)) percentile_keys)"
    using nested_numeric [OF sub] by (auto simp: list_all_iff intro: is_number_or_zero)
  have len_full: "length (map (\<lambda>k. or_zero (top_level stats k)) scalar_keys
                @ map (\<lambda>k. or_zero (nested_percentile stats k)) percentile_keys) = 10"
    by (simp add: scalar_keys_def percentile_keys_def)
  have len_pcts: "length (map (\<lambda>k. or_zero (top_level stats k)) percentile_keys) = 3"
    by (simp add: percentile_keys_def)
  from full pcts num_top num_nested len_full len_pcts show ?thesis
    by simp
qed

text \<open>The record \<^verbatim>\<open>{"min": 2, "percentiles": {"p50": 5}}\<close>, which lacks most keys.\<close>

theorem extraction_total_and_defaulting_witness:
  "is_statistics_record (PDict (fmupd ''min'' (PNum 2)
      (fmupd ''percentiles'' (PDict (fmupd ''p50'' (PNum 5) fmempty)) fmempty)))
   \<and> extract_statistics (PDict (fmupd ''min'' (PNum 2)
        (fmupd ''percentiles'' (PDict (fmupd ''p50'' (PNum 5) fmempty)) fmempty)))
       = Inr [PNum 2, PNum 0, PNum 0, PNum 0, PNum 0, PNum 0, PNum 0, PNum 0, PNum 5, PNum 0]
   \<and> extract_percentiles (PDict (fmupd ''min'' (PNum 2)
        (fmupd ''percentiles'' (PDict (fmupd ''p50'' (PNum 5) fmempty)) fmempty)))
       = Inr [PNum 0, PNum 0, PNum 0]"
proof -
  let ?r = "PDict (fmupd ''min'' (PNum 2)
      (fmupd ''percentiles'' (PDict (fmupd ''p50'' (PNum 5) fmempty)) fmempty))"
  have rec: "is_statistics_record ?r"
    by (simp add: is_statistics_record_def scalar_keys_def percentile_keys_def)
  from extraction_total_and_defaulting [OF rec] rec show ?thesis
    by (simp add: scalar_keys_def percentile_keys_def nested_percentile_def)
qed


subsection \<open>C5: no gating when an identifier is omitted\<close>

text \<open>
  C5. When at least one of the two field identifiers is omitted (is \<^verbatim>\<open>None\<close>), in particular
  when both are, \<^verbatim>\<open>compare_statistics\<close> is the direct computation: the two full vectors are
  extracted and handed to the distance engine, with the same result or the same
  exception, and the sentinel is not returned.
\<close>

theorem gating_bypass:
  assumes "candidate_field_id = PNone \<or> root_field_id = PNone"
  shows "compare_statistics stats1 stats2 candidate_field_id root_field_id
           = direct_full_distance stats1 stats2
         \<and> compare_statistics stats1 stats2 candidate_field_id root_field_id \<noteq> Inr Infinity"
proof -
  have "compare_statistics stats1 stats2 candidate_field_id root_field_id
           = direct_full_distance stats1 stats2"
    using assms
    by (cases "extract_statistics stats1"; cases "extract_statistics stats2")
       (auto simp: compare_statistics_def direct_full_distance_def split: sum.splits)
  moreover have "direct_full_distance stats1 stats2 \<noteq> Inr Infinity"
    by (simp add: direct_full_distance_def split: sum.splits)
  ultimately show ?thesis by simp
qed

text \<open>The records \<^verbatim>\<open>{}\<close> and \<^verbatim>\<open>{"min": 10}\<close> with only the root identifier given: ten zeros
  against one ten and nine zeros, at distance \<open>1\<close>; the identifier \<^verbatim>\<open>b/bar\<close> plays no part.\<close>

theorem gating_bypass_witness:
  "compare_statistics (PDict fmempty) (PDict (fmupd ''min'' (PNum 10) fmempty))
       PNone (PStr ''b/bar'')
     = Inr (Finite 1)
   \<and> direct_full_distance (PDict fmempty) (PDict (fmupd ''min'' (PNum 10) fmempty))
       = Inr (Finite 1)"
proof -
  have "direct_full_distance (PDict fmempty) (PDict (fmupd ''min'' (PNum 10) fmempty))
          = Inr (Finite 1)"
    by (simp add: direct_full_distance_def extract_statistics_def wasserstein_distance_def
        distance_def empirical_cdf_def)
  with gating_bypass [of PNone "PStr ''b/bar''" "PDict fmempty"
      "PDict (fmupd ''min'' (PNum 10) fmempty)"]
  show ?thesis by simp
qed


subsection \<open>C6: percentiles are read at the top level\<close>

text \<open>
  C6. \<^verbatim>\<open>extract_percentiles\<close> returns the top-level entries \<^verbatim>\<open>p25\<close>, \<^verbatim>\<open>p50\<close>, \<^verbatim>\<open>p75\<close> of the
  record, each \<open>0\<close> when absent, and never looks inside a nested \<^verbatim>\<open>percentiles\<close> mapping:
  setting that entry to anything leaves the result unchanged. The record
  \<^verbatim>\<open>{"p25": 1, "p50": 2, "p75": 3}\<close> gives \<open>[1, 2, 3]\<close>, and the record that holds the same
  three entries only under \<^verbatim>\<open>percentiles\<close> gives \<open>[0, 0, 0]\<close>.
\<close>

theorem percentiles_read_from_top_level:
  "extract_percentiles (PDict m)
     = Inr [or_zero (fmlookup m ''p25''), or_zero (fmlookup m ''p50''),
            or_zero (fmlookup m ''p75'')]
   \<and> extract_percentiles (PDict (fmupd ''percentiles'' sub m)) = extract_percentiles (PDict m)
   \<and> extract_percentiles
        (PDict (fmupd ''p25'' (PNum 1) (fmupd ''p50'' (PNum 2) (fmupd ''p75'' (PNum 3) fmempty))))
       = Inr [PNum 1, PNum 2, PNum 3]
   \<and> extract_percentiles
        (PDict (fmupd ''percentiles''
           (PDict (fmupd ''p25'' (PNum 1) (fmupd ''p50'' (PNum 2) (fmupd ''p75'' (PNum 3) fmempty))))
           fmempty))
       = Inr [PNum 0, PNum 0, PNum 0]"
  by (simp add: extract_percentiles_def split: option.splits)

text \<open>A record with \<^verbatim>\<open>p25\<close> both at the top level (4) and nested (7): the top-level one is
  read.\<close>

theorem percentiles_read_from_top_level_witness:
  "extract_percentiles
        (PDict (fmupd ''percentiles'' (PDict (fmupd ''p25'' (PNum 7) fmempty))
                  (fmupd ''p25'' (PNum 4) fmempty)))
     = Inr [PNum 4, PNum 0, PNum 0]"
  using percentiles_read_from_top_level
    [of "fmupd ''percentiles'' (PDict (fmupd ''p25'' (PNum 7) fmempty))
           (fmupd ''p25'' (PNum 4) fmempty)"]
  by simp


subsection \<open>C7: the gate is fail-soft\<close>

text \<open>
  C7. For every pair of arguments the gate returns a truth value: no exception escapes.
  Whenever the \<^verbatim>\<open>try\<close> block is reached (both arguments are truthy and they differ) and an
  exception is raised in it while an identifier is split or lower-cased, the gate
  returns false.
\<close>

theorem gate_fail_soft:
  "(\<exists>verdict. should_compare_fields candidate_field_id root_field_id = Inr verdict)
   \<and> (truthy candidate_field_id \<and> truthy root_field_id
        \<and> candidate_field_id \<noteq> root_field_id
        \<and> try_field_names candidate_field_id root_field_id = Inl e
        \<longrightarrow> should_compare_fields candidate_field_id root_field_id = Inr False)"
  by (auto simp: should_compare_fields_def split: sum.splits)

text \<open>The call \<^verbatim>\<open>should_compare_fields(5, "a/b")\<close>: \<^verbatim>\<open>(5).split\<close> raises inside the block.\<close>

theorem gate_fail_soft_witness:
  "truthy (PNum 5) \<and> truthy (PStr ''a/b'') \<and> PNum 5 \<noteq> PStr ''a/b''
   \<and> try_field_names (PNum 5) (PStr ''a/b'') = Inl AttributeError
   \<and> should_compare_fields (PNum 5) (PStr ''a/b'') = Inr False"
proof -
  have raised: "try_field_names (PNum 5) (PStr ''a/b'') = Inl AttributeError"
    by (simp add: try_field_names_def field_name_def)
  with gate_fail_soft [of "PNum 5" "PStr ''a/b''" AttributeError] show ?thesis
    by simp
qed


subsection \<open>C8: the distance is symmetric\<close>

text \<open>
  C8. The Wasserstein-1 distance of the engine, as the specification describes it, is
  symmetric: \<open>distance A B = distance B A\<close> for all vectors, of equal length or not.
\<close>

theorem distance_symmetric: "distance vectorA vectorB = distance vectorB vectorA"
proof -
  have "merge_sorted (sort vectorA) (sort vectorB) = merge_sorted (sort vectorB) (sort vectorA)"
    by (rule merge_sorted_commute) simp_all
  then show ?thesis
    by (simp add: distance_def Let_def accumulate_swap [of "sort vectorA" "sort vectorB"])
qed

text \<open>Two vectors of lengths 2 and 3.\<close>

theorem distance_symmetric_witness:
  "distance [0, 1] [0, 1, 1] = 1 / 6 \<and> distance [0, 1, 1] [0, 1] = 1 / 6"
proof -
  have "distance [0, 1] [0, 1, 1] = 1 / 6"
    by (simp add: distance_def empirical_cdf_def)
  with distance_symmetric [of "[0, 1]" "[0, 1, 1]"] show ?thesis
    by simp
qed


subsection \<open>C9: the distance of equal distributions is zero\<close>

text \<open>
  C9. The distance of a vector to itself is \<open>0\<close>, and so is the distance of a vector to
  any permutation of it (a vector with the same multiset of entries).
\<close>

theorem distance_zero_on_equal_distributions:
  "distance v v = 0 \<and> (mset w = mset v \<longrightarrow> distance v w = 0)"
proof -
  have "distance v w = 0" if "mset w = mset v"
  proof -
    from that have "sort w = sort v"
      by (intro properties_for_sort) simp_all
    then show ?thesis
      by (simp add: distance_def Let_def accumulate_same)
  qed
  moreover have "distance v v = 0"
    by (simp add: distance_def Let_def accumulate_same)
  ultimately show ?thesis by simp
qed

theorem distance_zero_on_equal_distributions_witness:
  "mset [3, 1, 2] = mset [1, 2, 3 :: real]
   \<and> distance [1, 2, 3] [3, 1, 2] = 0 \<and> distance [1, 2, 3] [1, 2, 3] = 0"
proof -
  have perm: "mset [3, 1, 2] = mset [1, 2, 3 :: real]"
    by (simp add: add_mset_commute)
  with distance_zero_on_equal_distributions [of "[1, 2, 3]" "[3, 1, 2]"] show ?thesis
    by simp
qed


subsection \<open>C10: the gate is symmetric\<close>

text \<open>
  C10. The gate gives the same answer when candidate and root are exchanged, for all
  arguments: strings, the empty string, \<^verbatim>\<open>None\<close>, and values that are not strings.
\<close>

theorem gate_symmetric: "should_compare_fields a b = should_compare_fields b a"
  unfolding should_compare_fields_alt
  using try_field_names_commute [of a b] by auto

text \<open>Containment in one direction only (\<^verbatim>\<open>name\<close> in \<^verbatim>\<open>surname\<close>), and a non-string argument.\<close>

theorem gate_symmetric_witness:
  "should_compare_fields (PStr ''y/surname'') (PStr ''x/name'') = Inr True
   \<and> should_compare_fields (PStr ''a/b'') (PNum 5) = should_compare_fields (PNum 5) (PStr ''a/b'')"
proof -
  have "should_compare_fields (PStr ''x/name'') (PStr ''y/surname'') = Inr True"
    by (rule gate_name_in_surname)
  with gate_symmetric [of "PStr ''y/surname''" "PStr ''x/name''"]
    gate_symmetric [of "PStr ''a/b''" "PNum 5"]
  show ?thesis by simp
qed

end
